theory Spec2Isabelle
  imports Complex_Main "HOL-Library.AList"
begin

section \<open>Host values\<close>

text \<open>
  The library is TypeScript; at run time every argument typed \<open>unknown\<close> is an arbitrary
  JavaScript value. The model covers plain data: the primitives, dates, arrays and plain
  objects. A number is a finite rational (every double is one), NaN or an infinity. A date
  carries its time value. An object is the list of its own enumerable entries in the order
  \<open>Object.entries\<close> yields them. Strings are lists of characters, one per code unit.
\<close>

datatype jsnum = Fin rat | NaN | PosInf | NegInf

datatype jsval =
    JUndefined
  | JNull
  | JBool bool
  | JNumber jsnum
  | JBigInt int
  | JString string
  | JDate jsnum
  | JArray "jsval list"
  | JObject "(string \<times> jsval) list"

datatype error =
    ValidationError string "string option"
  | TypeMappingError string
  | TypeError
  | RangeError
  | SyntaxError

text \<open>
  \<open>ValidationError message field\<close> and \<open>TypeMappingError message\<close> are the library's own
  error classes (the further context arguments of their constructors are not kept);
  \<open>TypeError\<close>, \<open>RangeError\<close> and \<open>SyntaxError\<close> are the exceptions of the host's built-ins.
\<close>

text \<open>
  Built-ins of the host whose exact result is not reproduced here are parameters of the
  model: \<open>String(v)\<close>, \<open>Number(v)\<close> and \<open>new Date(v)\<close> on values they have to convert,
  the digits of a number that is not a safe integer, \<open>Date.parse\<close>, \<open>JSON.parse\<close> and the
  string grammar of \<open>BigInt\<close>. Those that can throw return an error.
\<close>

record host =
  String_of :: "jsval \<Rightarrow> error + string"
  NumberToString :: "jsnum \<Rightarrow> string"
  Number_of :: "jsval \<Rightarrow> error + jsnum"
  Date_of :: "jsval \<Rightarrow> error + jsnum"
  Date_parse :: "string \<Rightarrow> jsnum"
  JSON_parse :: "string \<Rightarrow> error + jsval"
  StringToBigInt :: "string \<Rightarrow> int option"
  BigInt_of :: "jsval \<Rightarrow> error + int"

subsection \<open>Strings and numbers\<close>

fun join :: "string \<Rightarrow> string list \<Rightarrow> string" where
  "join sep [] = []"
| "join sep [x] = x"
| "join sep (x # y # ys) = x @ sep @ join sep (y # ys)"

definition digit :: "nat \<Rightarrow> char" where
  "digit d = ''0123456789'' ! d"

fun showNat :: "nat \<Rightarrow> string" where
  "showNat n = (if n < 10 then [digit n] else showNat (n div 10) @ [digit (n mod 10)])"

declare showNat.simps [simp del]

definition showInt :: "int \<Rightarrow> string" where
  "showInt i = (if i < 0 then ''-'' @ showNat (nat (- i)) else showNat (nat i))"

definition isIntegral :: "rat \<Rightarrow> bool" where
  "isIntegral r = (of_int \<lfloor>r\<rfloor> = r)"

text \<open>\<open>Number.isInteger\<close>, \<open>isNaN\<close> and the comparisons of numbers (false on NaN).\<close>

fun Number_isInteger :: "jsval \<Rightarrow> bool" where
  "Number_isInteger (JNumber (Fin r)) = isIntegral r"
| "Number_isInteger _ = False"

fun isNaN :: "jsnum \<Rightarrow> bool" where
  "isNaN NaN = True"
| "isNaN _ = False"

fun num_le :: "jsnum \<Rightarrow> jsnum \<Rightarrow> bool" where
  "num_le NaN _ = False"
| "num_le _ NaN = False"
| "num_le NegInf _ = True"
| "num_le _ PosInf = True"
| "num_le (Fin a) (Fin b) = (a \<le> b)"
| "num_le _ _ = False"

fun num_lt :: "jsnum \<Rightarrow> jsnum \<Rightarrow> bool" where
  "num_lt NaN _ = False"
| "num_lt _ NaN = False"
| "num_lt PosInf _ = False"
| "num_lt _ NegInf = False"
| "num_lt (Fin a) (Fin b) = (a < b)"
| "num_lt _ _ = True"

text \<open>Truthiness, as \<open>if (v)\<close>, \<open>!v\<close>, \<open>v || d\<close> and \<open>Boolean(v)\<close> read a value.\<close>

fun truthyNum :: "jsnum \<Rightarrow> bool" where
  "truthyNum (Fin r) = (r \<noteq> 0)"
| "truthyNum NaN = False"
| "truthyNum _ = True"

fun truthy :: "jsval \<Rightarrow> bool" where
  "truthy JUndefined = False"
| "truthy JNull = False"
| "truthy (JBool b) = b"
| "truthy (JNumber x) = truthyNum x"
| "truthy (JBigInt i) = (i \<noteq> 0)"
| "truthy (JString s) = (s \<noteq> [])"
| "truthy _ = True"

fun typeof :: "jsval \<Rightarrow> string" where
  "typeof JUndefined = ''undefined''"
| "typeof JNull = ''object''"
| "typeof (JBool _) = ''boolean''"
| "typeof (JNumber _) = ''number''"
| "typeof (JBigInt _) = ''bigint''"
| "typeof (JString _) = ''string''"
| "typeof (JDate _) = ''object''"
| "typeof (JArray _) = ''object''"
| "typeof (JObject _) = ''object''"

fun Array_isArray :: "jsval \<Rightarrow> bool" where
  "Array_isArray (JArray _) = True"
| "Array_isArray _ = False"

fun instanceofDate :: "jsval \<Rightarrow> bool" where
  "instanceofDate (JDate _) = True"
| "instanceofDate _ = False"

text \<open>
  The text of a number, as a template literal and \<open>String\<close> print it; it never throws. An
  integer up to \<open>2^53\<close> in absolute value prints its decimal digits. Beyond that, and for a
  fraction, the host prints the shortest digits that read back as the same double.
\<close>

definition Number_toString :: "host \<Rightarrow> jsnum \<Rightarrow> string" where
  "Number_toString h x =
     (case x of
        Fin r \<Rightarrow>
          (if isIntegral r \<and> \<bar>r\<bar> \<le> 9007199254740992 then showInt \<lfloor>r\<rfloor>
           else NumberToString h x)
      | NaN \<Rightarrow> ''NaN''
      | PosInf \<Rightarrow> ''Infinity''
      | NegInf \<Rightarrow> ''-Infinity'')"

text \<open>
  \<open>String(v)\<close>. A primitive always has a text. An object is first made primitive through
  its \<open>toString\<close> and \<open>valueOf\<close>: plain data holds no function, so an object with an own
  property \<open>toString\<close> has no callable \<open>toString\<close>, its \<open>valueOf\<close> yields no primitive
  either, and the conversion throws a TypeError. For the other objects, for arrays (joined
  from their elements) and for dates the host decides, and may throw (an object without a
  prototype, an array holding an object that throws).
\<close>

definition String_js :: "host \<Rightarrow> jsval \<Rightarrow> error + string" where
  "String_js h v =
     (case v of
        JString s \<Rightarrow> Inr s
      | JUndefined \<Rightarrow> Inr ''undefined''
      | JNull \<Rightarrow> Inr ''null''
      | JBool b \<Rightarrow> Inr (if b then ''true'' else ''false'')
      | JBigInt i \<Rightarrow> Inr (showInt i)
      | JNumber x \<Rightarrow> Inr (Number_toString h x)
      | JObject es \<Rightarrow>
          (if ''toString'' \<in> set (map fst es) then Inl TypeError else String_of h v)
      | _ \<Rightarrow> String_of h v)"

text \<open>
  \<open>parts.join(sep)\<close> on an array of values: null and undefined count as the empty text,
  every other element is converted as \<open>String\<close> does.
\<close>

definition elementText :: "host \<Rightarrow> jsval \<Rightarrow> error + string" where
  "elementText h x = (if x = JNull \<or> x = JUndefined then Inr [] else String_js h x)"

fun Array_join :: "host \<Rightarrow> string \<Rightarrow> jsval list \<Rightarrow> error + string" where
  "Array_join h sep [] = Inr []"
| "Array_join h sep [x] = elementText h x"
| "Array_join h sep (x # y # ys) =
     (case elementText h x of
        Inl e \<Rightarrow> Inl e
      | Inr s \<Rightarrow>
          (case Array_join h sep (y # ys) of
             Inl e \<Rightarrow> Inl e
           | Inr r \<Rightarrow> Inr (s @ sep @ r)))"

text \<open>
  \<open>Number(v)\<close>: a number is itself; the host converts the rest, and may throw (an object
  that cannot be made primitive).
\<close>

definition Number_js :: "host \<Rightarrow> jsval \<Rightarrow> error + jsnum" where
  "Number_js h v = (case v of JNumber x \<Rightarrow> Inr x | _ \<Rightarrow> Number_of h v)"

text \<open>
  \<open>BigInt(v)\<close>: a bigint is itself; an integral number converts exactly and any other number
  is a RangeError; a boolean is 0 or 1; a string goes through the host's grammar and is a
  SyntaxError when it does not parse; null and undefined are a TypeError; dates, arrays and
  objects are first made primitive by the host.
\<close>

definition BigInt_js :: "host \<Rightarrow> jsval \<Rightarrow> error + int" where
  "BigInt_js h v =
     (case v of
        JBigInt i \<Rightarrow> Inr i
      | JNumber (Fin r) \<Rightarrow> (if isIntegral r then Inr \<lfloor>r\<rfloor> else Inl RangeError)
      | JNumber _ \<Rightarrow> Inl RangeError
      | JBool b \<Rightarrow> Inr (if b then 1 else 0)
      | JString s \<Rightarrow> (case StringToBigInt h s of None \<Rightarrow> Inl SyntaxError | Some i \<Rightarrow> Inr i)
      | JUndefined \<Rightarrow> Inl TypeError
      | JNull \<Rightarrow> Inl TypeError
      | _ \<Rightarrow> BigInt_of h v)"

text \<open>Own-property lookup \<open>o[k]\<close> on the entries of an object.\<close>

definition getProp :: "(string \<times> jsval) list \<Rightarrow> string \<Rightarrow> jsval" where
  "getProp es k = (case map_of es k of None \<Rightarrow> JUndefined | Some v \<Rightarrow> v)"

text \<open>
  \<open>Object.entries(v)\<close>: the entries of an object, the indexed elements of an array, the
  indexed characters of a string, nothing for the other primitives and dates, a TypeError
  for null and undefined.
\<close>

fun indexed :: "nat \<Rightarrow> jsval list \<Rightarrow> (string \<times> jsval) list" where
  "indexed i [] = []"
| "indexed i (x # xs) = (showNat i, x) # indexed (Suc i) xs"

fun Object_entries :: "jsval \<Rightarrow> error + (string \<times> jsval) list" where
  "Object_entries (JObject es) = Inr es"
| "Object_entries (JArray xs) = Inr (indexed 0 xs)"
| "Object_entries (JString s) = Inr (indexed 0 (map (\<lambda>c. JString [c]) s))"
| "Object_entries JUndefined = Inl TypeError"
| "Object_entries JNull = Inl TypeError"
| "Object_entries _ = Inr []"

section \<open>Identifiers\<close>

text \<open>\<open>isValidIdentifier\<close> of the validator: the pattern \<open>^[a-zA-Z_][a-zA-Z0-9_]*$\<close>.\<close>

definition identStart :: "char \<Rightarrow> bool" where
  "identStart c = (c \<in> set ''abcdefghijklmnopqrstuvwxyzABCDEFGHIJKLMNOPQRSTUVWXYZ_'')"

definition identChar :: "char \<Rightarrow> bool" where
  "identChar c = (identStart c \<or> c \<in> set ''0123456789'')"

fun isValidIdentifier :: "string \<Rightarrow> bool" where
  "isValidIdentifier [] = False"
| "isValidIdentifier (c # cs) = (identStart c \<and> list_all identChar cs)"

text \<open>
  The condition compiler receives its identifier-quoting utility as a constructor argument;
  it is a parameter of the model.
\<close>

record SQLBuilder =
  "identifier" :: "string \<Rightarrow> error + string"

text \<open>
  Modelled from the spec: the module sql-builder.ts, which defines the class the library
  passes here, is not among the sources. The spec says of its identifier utility that it
  fails closed on any value not matching the identifier grammar and that identifiers are
  always emitted backtick-quoted.
\<close>

definition SQLBuilder_new :: SQLBuilder where
  "SQLBuilder_new =
     \<lparr> identifier = (\<lambda>name.
         if isValidIdentifier name then Inr ([CHR 0x60] @ name @ [CHR 0x60])
         else Inl (ValidationError (''Invalid SQL identifier: '' @ name) (Some ''identifier''))) \<rparr>"

section \<open>Condition compiler (query/where.ts)\<close>

record WhereBuilder =
  params :: "(string \<times> jsval) list"
  paramCounter :: nat
  startingParamCount :: nat
  sqlBuilder :: SQLBuilder

definition WhereBuilder_new :: "SQLBuilder \<Rightarrow> nat \<Rightarrow> WhereBuilder" where
  "WhereBuilder_new sb start =
     \<lparr> params = [], paramCounter = start, startingParamCount = start, sqlBuilder = sb \<rparr>"

text \<open>The type guards of core/types.ts.\<close>

definition isRawExpression :: "jsval \<Rightarrow> bool" where
  "isRawExpression v =
     (case v of
        JObject es \<Rightarrow>
          (case map_of es ''_brand'' of
             None \<Rightarrow> False
           | Some b \<Rightarrow> b = JString ''RawExpression'')
      | _ \<Rightarrow> False)"

definition validKeys :: "string list" where
  "validKeys = [''eq'', ''ne'', ''gt'', ''gte'', ''lt'', ''lte'', ''in'', ''notIn'',
                ''like'', ''notLike'', ''ilike'', ''between'', ''isNull'', ''notNull'']"

definition Object_keys :: "jsval \<Rightarrow> string list" where
  "Object_keys v = (case Object_entries v of Inl _ \<Rightarrow> [] | Inr es \<Rightarrow> map fst es)"

definition isWhereOperator :: "jsval \<Rightarrow> bool" where
  "isWhereOperator v =
     (if typeof v \<noteq> ''object'' \<or> v = JNull then False
      else list_ex (\<lambda>key. key \<in> set validKeys) (Object_keys v))"

definition inferParamType :: "jsval \<Rightarrow> string" where
  "inferParamType v =
     (case v of
        JUndefined \<Rightarrow> ''Nullable(String)''
      | JNull \<Rightarrow> ''Nullable(String)''
      | JNumber _ \<Rightarrow> (if Number_isInteger v then ''Int32'' else ''Float64'')
      | JBigInt _ \<Rightarrow> ''Int64''
      | JString _ \<Rightarrow> ''String''
      | JBool _ \<Rightarrow> ''UInt8''
      | JDate _ \<Rightarrow> ''DateTime''
      | JArray _ \<Rightarrow> ''Array(String)''
      | JObject _ \<Rightarrow> ''String'')"

text \<open>
  \<open>addParam\<close> names the parameter after the counter, advances the counter and stores the
  value under that name (\<open>this.params[paramName] = value\<close>: an existing key keeps its
  place, a new one is added last).
\<close>

definition addParam :: "WhereBuilder \<Rightarrow> jsval \<Rightarrow> string \<times> WhereBuilder" where
  "addParam this v =
     (let paramName = ''param'' @ showNat (paramCounter this);
          this1 = this\<lparr> paramCounter := Suc (paramCounter this),
                         params := AList.update paramName v (params this) \<rparr>
      in (''{'' @ paramName @ '':'' @ inferParamType v @ ''}'', this1))"

text \<open>\<open>value.map((v) => this.addParam(v))\<close>, left to right.\<close>

fun addParams :: "WhereBuilder \<Rightarrow> jsval list \<Rightarrow> string list \<times> WhereBuilder" where
  "addParams this [] = ([], this)"
| "addParams this (v # vs) =
     (let (p, this1) = addParam this v;
          (ps, this2) = addParams this1 vs
      in (p # ps, this2))"

text \<open>One turn of the loop of \<open>processOperators\<close>: the fragment pushed for one key.\<close>

definition processOperator ::
  "string \<Rightarrow> string \<Rightarrow> jsval \<Rightarrow> WhereBuilder \<Rightarrow> error + (string \<times> WhereBuilder)" where
  "processOperator fieldName op v this =
     (if op = ''eq'' then
        (if v = JNull then Inr (fieldName @ '' IS NULL'', this)
         else (let (p, this1) = addParam this v in Inr (fieldName @ '' = '' @ p, this1)))
      else if op = ''ne'' then
        (if v = JNull then Inr (fieldName @ '' IS NOT NULL'', this)
         else (let (p, this1) = addParam this v in Inr (fieldName @ '' != '' @ p, this1)))
      else if op = ''gt'' then
        (let (p, this1) = addParam this v in Inr (fieldName @ '' > '' @ p, this1))
      else if op = ''gte'' then
        (let (p, this1) = addParam this v in Inr (fieldName @ '' >= '' @ p, this1))
      else if op = ''lt'' then
        (let (p, this1) = addParam this v in Inr (fieldName @ '' < '' @ p, this1))
      else if op = ''lte'' then
        (let (p, this1) = addParam this v in Inr (fieldName @ '' <= '' @ p, this1))
      else if op = ''in'' then
        (case v of
           JArray xs \<Rightarrow>
             (if xs = [] then Inr (''1=0'', this)
              else (let (ps, this1) = addParams this xs
                    in Inr (fieldName @ '' IN ('' @ join '', '' ps @ '')'', this1)))
         | _ \<Rightarrow> Inl (ValidationError ''IN operator requires an array'' None))
      else if op = ''notIn'' then
        (case v of
           JArray xs \<Rightarrow>
             (if xs = [] then Inr (''1=1'', this)
              else (let (ps, this1) = addParams this xs
                    in Inr (fieldName @ '' NOT IN ('' @ join '', '' ps @ '')'', this1)))
         | _ \<Rightarrow> Inl (ValidationError ''NOT IN operator requires an array'' None))
      else if op = ''like'' then
        (let (p, this1) = addParam this v in Inr (fieldName @ '' LIKE '' @ p, this1))
      else if op = ''notLike'' then
        (let (p, this1) = addParam this v in Inr (fieldName @ '' NOT LIKE '' @ p, this1))
      else if op = ''ilike'' then
        (let (p, this1) = addParam this v in Inr (fieldName @ '' ILIKE '' @ p, this1))
      else if op = ''between'' then
        (case v of
           JArray [lo, hi] \<Rightarrow>
             (let (p0, this1) = addParam this lo;
                  (p1, this2) = addParam this1 hi
              in Inr (fieldName @ '' BETWEEN '' @ p0 @ '' AND '' @ p1, this2))
         | _ \<Rightarrow> Inl (ValidationError ''BETWEEN operator requires an array of 2 values'' None))
      else if op = ''isNull'' then
        (if truthy v then Inr (fieldName @ '' IS NULL'', this)
         else Inr (fieldName @ '' IS NOT NULL'', this))
      else if op = ''notNull'' then
        (if truthy v then Inr (fieldName @ '' IS NOT NULL'', this)
         else Inr (fieldName @ '' IS NULL'', this))
      else Inl (ValidationError (''Unknown operator: '' @ op) None))"

fun processOperatorsLoop ::
  "string \<Rightarrow> (string \<times> jsval) list \<Rightarrow> string list \<Rightarrow> WhereBuilder
     \<Rightarrow> error + (string \<times> WhereBuilder)" where
  "processOperatorsLoop fieldName [] parts this = Inr (join '' AND '' parts, this)"
| "processOperatorsLoop fieldName ((op, v) # es) parts this =
     (case processOperator fieldName op v this of
        Inl e \<Rightarrow> Inl e
      | Inr (part, this1) \<Rightarrow> processOperatorsLoop fieldName es (parts @ [part]) this1)"

definition processOperators ::
  "string \<Rightarrow> jsval \<Rightarrow> WhereBuilder \<Rightarrow> error + (string \<times> WhereBuilder)" where
  "processOperators fieldName operators this =
     (case Object_entries operators of
        Inl e \<Rightarrow> Inl e
      | Inr es \<Rightarrow> processOperatorsLoop fieldName es [] this)"

text \<open>
  \<open>processFieldCondition\<close> returns a value: the \<open>sql\<close> property of a raw expression as it
  is (\<open>(value as RawExpression).sql\<close>, whatever it holds), and a string on the other paths.
\<close>

definition rawSql :: "jsval \<Rightarrow> jsval" where
  "rawSql v = (case v of JObject es \<Rightarrow> getProp es ''sql'' | _ \<Rightarrow> JUndefined)"

definition processFieldCondition ::
  "WhereBuilder \<Rightarrow> string \<Rightarrow> jsval \<Rightarrow> error + (jsval \<times> WhereBuilder)" where
  "processFieldCondition this field v =
     (case identifier (sqlBuilder this) field of
        Inl e \<Rightarrow> Inl e
      | Inr fieldName \<Rightarrow>
          (if isRawExpression v then Inr (rawSql v, this)
           else if v = JNull \<or> v = JUndefined then Inr (JString (fieldName @ '' IS NULL''), this)
           else if isWhereOperator v then
             (case processOperators fieldName v this of
                Inl e \<Rightarrow> Inl e
              | Inr (s, this1) \<Rightarrow> Inr (JString s, this1))
           else (let (p, this1) = addParam this v
                 in Inr (JString (fieldName @ '' = '' @ p), this1))))"

text \<open>
  The loop of \<open>processCondition\<close> over entries none of whose keys is a combinator: the
  entries of an array or of a string, whose keys are their indices.
\<close>

fun processFields ::
  "host \<Rightarrow> (string \<times> jsval) list \<Rightarrow> jsval list \<Rightarrow> WhereBuilder
     \<Rightarrow> error + (string \<times> WhereBuilder)" where
  "processFields h [] parts this =
     (case Array_join h '' AND '' parts of
        Inl e \<Rightarrow> Inl e
      | Inr sql \<Rightarrow> Inr (sql, this))"
| "processFields h ((key, v) # es) parts this =
     (case processFieldCondition this key v of
        Inl e \<Rightarrow> Inl e
      | Inr (fc, this1) \<Rightarrow>
          processFields h es (if truthy fc then parts @ [fc] else parts) this1)"

text \<open>
  \<open>processCondition\<close> walks the entries of the condition; \<open>processConditions\<close> is the
  \<open>map\<close> over the children of \<open>and\<close>/\<open>or\<close> (a value without \<open>map\<close> is a TypeError);
  \<open>processEntries\<close> is the loop, with the parts pushed so far. A part is pushed when it is
  truthy; the parts are values, since a raw expression contributes whatever its \<open>sql\<close>
  holds, and the final \<open>join\<close> turns them into text.
\<close>

fun processCondition ::
      "host \<Rightarrow> jsval \<Rightarrow> WhereBuilder \<Rightarrow> error + (string \<times> WhereBuilder)"
and processConditions ::
      "host \<Rightarrow> jsval list \<Rightarrow> WhereBuilder \<Rightarrow> error + (string list \<times> WhereBuilder)"
and processEntries ::
      "host \<Rightarrow> (string \<times> jsval) list \<Rightarrow> jsval list \<Rightarrow> WhereBuilder
         \<Rightarrow> error + (string \<times> WhereBuilder)"
where
  "processCondition h (JObject es) this = processEntries h es [] this"
| "processCondition h v this =
     (case Object_entries v of
        Inl e \<Rightarrow> Inl e
      | Inr es \<Rightarrow> processFields h es [] this)"
| "processConditions h [] this = Inr ([], this)"
| "processConditions h (c # cs) this =
     (case processCondition h c this of
        Inl e \<Rightarrow> Inl e
      | Inr (s, this1) \<Rightarrow>
          (case processConditions h cs this1 of
             Inl e \<Rightarrow> Inl e
           | Inr (ss, this2) \<Rightarrow> Inr (s # ss, this2)))"
| "processEntries h [] parts this =
     (case Array_join h '' AND '' parts of
        Inl e \<Rightarrow> Inl e
      | Inr sql \<Rightarrow> Inr (sql, this))"
| "processEntries h ((key, v) # es) parts this =
     (if key = ''and'' \<or> key = ''$and'' then
        (case v of
           JArray cs \<Rightarrow>
             (case processConditions h cs this of
                Inl e \<Rightarrow> Inl e
              | Inr (ss, this1) \<Rightarrow>
                  (let andConditions = filter (\<lambda>s. s \<noteq> []) ss
                   in processEntries h es
                        (if andConditions \<noteq> []
                         then parts @ [JString (''('' @ join '' AND '' andConditions @ '')'')]
                         else parts) this1))
         | _ \<Rightarrow> Inl TypeError)
      else if key = ''or'' \<or> key = ''$or'' then
        (case v of
           JArray cs \<Rightarrow>
             (case processConditions h cs this of
                Inl e \<Rightarrow> Inl e
              | Inr (ss, this1) \<Rightarrow>
                  (let orConditions = filter (\<lambda>s. s \<noteq> []) ss
                   in processEntries h es
                        (if orConditions \<noteq> []
                         then parts @ [JString (''('' @ join '' OR '' orConditions @ '')'')]
                         else parts) this1))
         | _ \<Rightarrow> Inl TypeError)
      else if key = ''not'' \<or> key = ''$not'' then
        (case processCondition h v this of
           Inl e \<Rightarrow> Inl e
         | Inr (notCondition, this1) \<Rightarrow>
             processEntries h es
               (if notCondition \<noteq> []
                then parts @ [JString (''NOT ('' @ notCondition @ '')'')]
                else parts) this1)
      else
        (case processFieldCondition this key v of
           Inl e \<Rightarrow> Inl e
         | Inr (fieldCondition, this1) \<Rightarrow>
             processEntries h es
               (if truthy fieldCondition then parts @ [fieldCondition] else parts) this1))"

text \<open>
  \<open>build\<close> resets the parameters and the counter, compiles, and returns the SQL text
  (\<open>1=1\<close> when nothing was compiled) with the parameters bound.
\<close>

definition build ::
  "host \<Rightarrow> WhereBuilder \<Rightarrow> jsval \<Rightarrow> error + (string \<times> (string \<times> jsval) list)" where
  "build h this condition =
     (let this0 = this\<lparr> params := [], paramCounter := startingParamCount this \<rparr>
      in case processCondition h condition this0 of
           Inl e \<Rightarrow> Inl e
         | Inr (sql, this1) \<Rightarrow> Inr (if sql \<noteq> [] then sql else ''1=1'', params this1))"

section \<open>Column definitions (core/types.ts)\<close>

datatype DataType =
    UInt8 | UInt16 | UInt32 | UInt64 | Int8 | Int16 | Int32 | Int64
  | Float32 | Float64 | Decimal
  | String | FixedString
  | Date | Date32 | DateTime | DateTime64
  | Boolean
  | UUID
  | Enum8 | Enum16
  | Array | Tuple | Map | Nested | JSON
  | Nullable | LowCardinality | IPv4 | IPv6

text \<open>The value of each member of the enumeration is its own name.\<close>

fun dataTypeName :: "DataType \<Rightarrow> string" where
  "dataTypeName UInt8 = ''UInt8''"
| "dataTypeName UInt16 = ''UInt16''"
| "dataTypeName UInt32 = ''UInt32''"
| "dataTypeName UInt64 = ''UInt64''"
| "dataTypeName Int8 = ''Int8''"
| "dataTypeName Int16 = ''Int16''"
| "dataTypeName Int32 = ''Int32''"
| "dataTypeName Int64 = ''Int64''"
| "dataTypeName Float32 = ''Float32''"
| "dataTypeName Float64 = ''Float64''"
| "dataTypeName Decimal = ''Decimal''"
| "dataTypeName String = ''String''"
| "dataTypeName FixedString = ''FixedString''"
| "dataTypeName Date = ''Date''"
| "dataTypeName Date32 = ''Date32''"
| "dataTypeName DateTime = ''DateTime''"
| "dataTypeName DateTime64 = ''DateTime64''"
| "dataTypeName Boolean = ''Boolean''"
| "dataTypeName UUID = ''UUID''"
| "dataTypeName Enum8 = ''Enum8''"
| "dataTypeName Enum16 = ''Enum16''"
| "dataTypeName Array = ''Array''"
| "dataTypeName Tuple = ''Tuple''"
| "dataTypeName Map = ''Map''"
| "dataTypeName Nested = ''Nested''"
| "dataTypeName JSON = ''JSON''"
| "dataTypeName Nullable = ''Nullable''"
| "dataTypeName LowCardinality = ''LowCardinality''"
| "dataTypeName IPv4 = ''IPv4''"
| "dataTypeName IPv6 = ''IPv6''"

text \<open>
  A column definition. Every field but \<open>type\<close> is optional: \<open>None\<close> is an absent
  property. The fields \<open>length\<close> and \<open>default\<close> carry a prime, their names being taken.
  A default is kept as a value (a producer function is not plain data; no function below
  reads the field).
\<close>

record ColumnDefinition =
  type :: DataType
  nullable :: "bool option"
  primaryKey :: "bool option"
  unique :: "bool option"
  default' :: "jsval option"
  autoIncrement :: "bool option"
  comment :: "string option"
  elementType :: "DataType option"
  precision :: "jsnum option"
  scale :: "jsnum option"
  length' :: "jsnum option"
  enumValues :: "string list option"

type_synonym SchemaDefinition = "(string \<times> ColumnDefinition) list"

text \<open>An optional flag read as a condition (\<open>if (column.nullable)\<close>).\<close>

definition flag :: "bool option \<Rightarrow> bool" where
  "flag b = (b = Some True)"

text \<open>An optional number read as a condition, and \<open>n || d\<close>.\<close>

definition present :: "jsnum option \<Rightarrow> bool" where
  "present n = (case n of None \<Rightarrow> False | Some x \<Rightarrow> truthyNum x)"

definition orElse :: "jsnum option \<Rightarrow> jsnum \<Rightarrow> jsnum" where
  "orElse n d = (case n of None \<Rightarrow> d | Some x \<Rightarrow> if truthyNum x then x else d)"

section \<open>Type mapper (utils/type-mapper.ts)\<close>

text \<open>The entries of an enum type: each value with its position, counted from 1.\<close>

fun enumDef :: "nat \<Rightarrow> string list \<Rightarrow> string list" where
  "enumDef i [] = []"
| "enumDef i (v # vs) = ([CHR 0x27] @ v @ [CHR 0x27] @ '' = '' @ showNat (i + 1)) # enumDef (Suc i) vs"

definition baseTypeString :: "host \<Rightarrow> ColumnDefinition \<Rightarrow> error + string" where
  "baseTypeString h column =
     (let baseType = type column in
      case baseType of
        FixedString \<Rightarrow>
          Inr (''FixedString('' @ Number_toString h (orElse (length' column) (Fin 255)) @ '')'')
      | Decimal \<Rightarrow>
          Inr (''Decimal('' @ Number_toString h (orElse (precision column) (Fin 10)) @ '', ''
                 @ Number_toString h (orElse (scale column) (Fin 2)) @ '')'')
      | DateTime64 \<Rightarrow>
          Inr (''DateTime64('' @ Number_toString h (orElse (precision column) (Fin 3)) @ '')'')
      | Array \<Rightarrow>
          (case elementType column of
             None \<Rightarrow> Inl (TypeMappingError ''Array type requires elementType'')
           | Some et \<Rightarrow> Inr (''Array('' @ dataTypeName et @ '')''))
      | LowCardinality \<Rightarrow>
          (case elementType column of
             None \<Rightarrow> Inl (TypeMappingError ''LowCardinality type requires elementType'')
           | Some et \<Rightarrow> Inr (''LowCardinality('' @ dataTypeName et @ '')''))
      | Enum8 \<Rightarrow>
          (case enumValues column of
             None \<Rightarrow> Inl (TypeMappingError ''Enum type requires enumValues'')
           | Some vs \<Rightarrow>
               if vs = [] then Inl (TypeMappingError ''Enum type requires enumValues'')
               else Inr (''Enum8('' @ join '', '' (enumDef 0 vs) @ '')''))
      | Enum16 \<Rightarrow>
          (case enumValues column of
             None \<Rightarrow> Inl (TypeMappingError ''Enum type requires enumValues'')
           | Some vs \<Rightarrow>
               if vs = [] then Inl (TypeMappingError ''Enum type requires enumValues'')
               else Inr (''Enum16('' @ join '', '' (enumDef 0 vs) @ '')''))
      | _ \<Rightarrow> Inr (dataTypeName baseType))"

text \<open>\<open>getClickHouseType\<close>: the switch above, then the \<open>Nullable\<close> wrapper.\<close>

definition getClickHouseType :: "host \<Rightarrow> ColumnDefinition \<Rightarrow> error + string" where
  "getClickHouseType h column =
     (case baseTypeString h column of
        Inl e \<Rightarrow> Inl e
      | Inr typeStr \<Rightarrow>
          Inr (if flag (nullable column) then ''Nullable('' @ typeStr @ '')'' else typeStr))"

definition MAX_SAFE_INTEGER :: int where
  "MAX_SAFE_INTEGER = 9007199254740991"

definition MIN_SAFE_INTEGER :: int where
  "MIN_SAFE_INTEGER = - 9007199254740991"

text \<open>
  \<open>new Date(v)\<close> and \<open>JSON.parse\<close> are the host's; \<open>Number\<close> of a bigint inside the safe
  range is exact; \<open>Number(v)\<close>, \<open>BigInt(v)\<close>, \<open>String(v)\<close>, \<open>new Date(v)\<close> and
  \<open>JSON.parse\<close> may throw.
\<close>

definition fromClickHouseValue :: "host \<Rightarrow> jsval \<Rightarrow> DataType \<Rightarrow> error + jsval" where
  "fromClickHouseValue h v dataType =
     (if v = JNull \<or> v = JUndefined then Inr JNull
      else if dataType \<in> set [UInt8, UInt16, UInt32, Int8, Int16, Int32, Float32, Float64, Decimal]
      then (case Number_js h v of Inl e \<Rightarrow> Inl e | Inr x \<Rightarrow> Inr (JNumber x))
      else if dataType \<in> set [UInt64, Int64] then
        (case (case v of JBigInt i \<Rightarrow> Inr i | _ \<Rightarrow> BigInt_js h v) of
           Inl e \<Rightarrow> Inl e
         | Inr bigintVal \<Rightarrow>
             if bigintVal \<le> MAX_SAFE_INTEGER \<and> bigintVal \<ge> MIN_SAFE_INTEGER
             then Inr (JNumber (Fin (of_int bigintVal)))
             else Inr (JBigInt bigintVal))
      else if dataType = Boolean then Inr (JBool (truthy v))
      else if dataType \<in> set [String, FixedString, UUID, IPv4, IPv6, Enum8, Enum16]
      then (case String_js h v of Inl e \<Rightarrow> Inl e | Inr s \<Rightarrow> Inr (JString s))
      else if dataType \<in> set [Date, Date32, DateTime, DateTime64] then
        (if instanceofDate v then Inr v
         else (case Date_of h v of Inl e \<Rightarrow> Inl e | Inr t \<Rightarrow> Inr (JDate t)))
      else if dataType = Array then
        (if \<not> Array_isArray v then Inl (TypeMappingError ''Expected array value from ClickHouse'')
         else Inr v)
      else if dataType \<in> set [JSON, Map] then
        (case v of JString s \<Rightarrow> JSON_parse h s | _ \<Rightarrow> Inr v)
      else Inr v)"

definition isInteger :: "jsval \<Rightarrow> bool" where
  "isInteger v = (typeof v = ''number'' \<and> Number_isInteger v)"

text \<open>
  \<open>isInteger(value) && Number(value) >= lo && Number(value) <= hi\<close>: \<open>Number\<close> runs only
  once \<open>isInteger\<close> has held, on a number, which it returns.
\<close>

definition integerBetween :: "jsval \<Rightarrow> rat \<Rightarrow> rat \<Rightarrow> bool" where
  "integerBetween v lo hi =
     (isInteger v \<and> (case v of JNumber x \<Rightarrow> num_le (Fin lo) x \<and> num_le x (Fin hi) | _ \<Rightarrow> False))"

text \<open>
  The test of the four date kinds, \<open>value instanceof Date || !isNaN(Date.parse(String(value)))\<close>:
  for a value that is not a date, \<open>String\<close> runs and may throw.
\<close>

definition validDate :: "host \<Rightarrow> jsval \<Rightarrow> error + bool" where
  "validDate h v =
     (if instanceofDate v then Inr True
      else (case String_js h v of
              Inl e \<Rightarrow> Inl e
            | Inr s \<Rightarrow> Inr (\<not> isNaN (Date_parse h s))))"

text \<open>The switch of \<open>validateValue\<close>, for a value that is neither null nor undefined.\<close>

definition validateTyped :: "host \<Rightarrow> jsval \<Rightarrow> ColumnDefinition \<Rightarrow> error + bool" where
  "validateTyped h v column =
     (case type column of
        UInt8 \<Rightarrow> Inr (integerBetween v 0 255)
      | UInt16 \<Rightarrow> Inr (integerBetween v 0 65535)
      | UInt32 \<Rightarrow> Inr (integerBetween v 0 4294967295)
      | Int8 \<Rightarrow> Inr (integerBetween v (- 128) 127)
      | Int16 \<Rightarrow> Inr (integerBetween v (- 32768) 32767)
      | Int32 \<Rightarrow> Inr (integerBetween v (- 2147483648) 2147483647)
      | Float32 \<Rightarrow> Inr (case v of JNumber x \<Rightarrow> \<not> isNaN x | _ \<Rightarrow> False)
      | Float64 \<Rightarrow> Inr (case v of JNumber x \<Rightarrow> \<not> isNaN x | _ \<Rightarrow> False)
      | Decimal \<Rightarrow> Inr (case v of JNumber x \<Rightarrow> \<not> isNaN x | _ \<Rightarrow> False)
      | Int64 \<Rightarrow> Inr (typeof v = ''bigint'' \<or> typeof v = ''number'')
      | UInt64 \<Rightarrow> Inr (typeof v = ''bigint'' \<or> typeof v = ''number'')
      | Boolean \<Rightarrow> Inr (typeof v = ''boolean'')
      | String \<Rightarrow> Inr (case v of JString s \<Rightarrow> True | _ \<Rightarrow> False)
      | FixedString \<Rightarrow>
          Inr (case v of
                 JString s \<Rightarrow>
                   (case length' column of
                      None \<Rightarrow> True
                    | Some n \<Rightarrow> if truthyNum n then num_le (Fin (of_nat (length s))) n else True)
               | _ \<Rightarrow> False)
      | UUID \<Rightarrow> Inr (case v of JString s \<Rightarrow> True | _ \<Rightarrow> False)
      | IPv4 \<Rightarrow> Inr (case v of JString s \<Rightarrow> True | _ \<Rightarrow> False)
      | IPv6 \<Rightarrow> Inr (case v of JString s \<Rightarrow> True | _ \<Rightarrow> False)
      | Date \<Rightarrow> validDate h v
      | Date32 \<Rightarrow> validDate h v
      | DateTime \<Rightarrow> validDate h v
      | DateTime64 \<Rightarrow> validDate h v
      | Array \<Rightarrow> Inr (Array_isArray v)
      | JSON \<Rightarrow> Inr (typeof v = ''object'' \<and> v \<noteq> JNull)
      | Map \<Rightarrow> Inr (typeof v = ''object'' \<and> v \<noteq> JNull)
      | Enum8 \<Rightarrow>
          Inr (case v of
                 JString s \<Rightarrow> (case enumValues column of None \<Rightarrow> True | Some vs \<Rightarrow> s \<in> set vs)
               | _ \<Rightarrow> False)
      | Enum16 \<Rightarrow>
          Inr (case v of
                 JString s \<Rightarrow> (case enumValues column of None \<Rightarrow> True | Some vs \<Rightarrow> s \<in> set vs)
               | _ \<Rightarrow> False)
      | _ \<Rightarrow> Inr True)"

definition validateValue :: "host \<Rightarrow> jsval \<Rightarrow> ColumnDefinition \<Rightarrow> error + bool" where
  "validateValue h v column =
     (if v = JNull \<or> v = JUndefined then
        (if \<not> flag (nullable column)
         then Inl (TypeMappingError ''Value cannot be null for non-nullable column'')
         else Inr True)
      else validateTyped h v column)"

section \<open>Validator (utils/validator.ts)\<close>

definition quoted :: "string \<Rightarrow> string" where
  "quoted s = [CHR 0x27] @ s @ [CHR 0x27]"

text \<open>
  \<open>validateColumnDefinition\<close>. The first check of the source, for a column without a
  type, cannot fire on a typed column definition and has no branch here.
\<close>

definition notPositive :: "jsnum option \<Rightarrow> bool" where
  "notPositive n = (\<not> present n \<or> (case n of None \<Rightarrow> False | Some x \<Rightarrow> num_le x (Fin 0)))"

definition validateColumnDefinition :: "string \<Rightarrow> ColumnDefinition \<Rightarrow> error + unit" where
  "validateColumnDefinition fieldName column =
     (if \<not> isValidIdentifier fieldName then
        Inl (ValidationError
          (''Invalid field name '' @ quoted fieldName
             @ ''. Field names must start with a letter or underscore and contain only alphanumeric characters and underscores.'')
          (Some fieldName))
      else if type column = FixedString \<and> notPositive (length' column) then
        Inl (ValidationError
          (''FixedString column '' @ quoted fieldName @ '' requires a positive length'')
          (Some fieldName))
      else if type column = Decimal \<and> notPositive (precision column) then
        Inl (ValidationError
          (''Decimal column '' @ quoted fieldName @ '' requires a positive precision'')
          (Some fieldName))
      else if type column = Decimal
                \<and> (case scale column of
                     None \<Rightarrow> False
                   | Some sc \<Rightarrow>
                       num_lt sc (Fin 0)
                         \<or> (case precision column of None \<Rightarrow> False | Some p \<Rightarrow> num_lt p sc)) then
        Inl (ValidationError
          (''Decimal column '' @ quoted fieldName @ '' scale must be between 0 and precision'')
          (Some fieldName))
      else if (type column = Array \<or> type column = LowCardinality) \<and> elementType column = None then
        Inl (ValidationError
          (dataTypeName (type column) @ '' column '' @ quoted fieldName @ '' requires elementType'')
          (Some fieldName))
      else if (type column = Enum8 \<or> type column = Enum16)
                \<and> (case enumValues column of None \<Rightarrow> True | Some vs \<Rightarrow> vs = []) then
        Inl (ValidationError
          (''Enum column '' @ quoted fieldName @ '' requires enumValues'') (Some fieldName))
      else if (type column = Enum8 \<or> type column = Enum16)
                \<and> (case enumValues column of
                     None \<Rightarrow> False
                   | Some vs \<Rightarrow> length vs > (if type column = Enum8 then 256 else 65536)) then
        Inl (ValidationError
          (dataTypeName (type column) @ '' column '' @ quoted fieldName
             @ '' cannot have more than ''
             @ showNat (if type column = Enum8 then 256 else 65536) @ '' values'')
          (Some fieldName))
      else if flag (primaryKey column) \<and> flag (nullable column) then
        Inl (ValidationError
          (''Primary key column '' @ quoted fieldName @ '' cannot be nullable'') (Some fieldName))
      else if flag (autoIncrement column)
                \<and> type column \<notin> set [UInt8, UInt16, UInt32, UInt64, Int8, Int16, Int32, Int64] then
        Inl (ValidationError
          (''Auto increment is only supported for integer types, but column ''
             @ quoted fieldName @ '' is '' @ dataTypeName (type column))
          (Some fieldName))
      else Inr ())"

fun validateColumns :: "SchemaDefinition \<Rightarrow> error + unit" where
  "validateColumns [] = Inr ()"
| "validateColumns ((fieldName, column) # rest) =
     (case validateColumnDefinition fieldName column of
        Inl e \<Rightarrow> Inl e
      | Inr _ \<Rightarrow> validateColumns rest)"

text \<open>\<open>fields.filter((field) => schema[field]?.primaryKey)\<close>.\<close>

definition primaryKeysOf :: "SchemaDefinition \<Rightarrow> string list" where
  "primaryKeysOf schema =
     filter (\<lambda>field. case map_of schema field of None \<Rightarrow> False | Some c \<Rightarrow> flag (primaryKey c))
       (map fst schema)"

definition validateSchema :: "SchemaDefinition \<Rightarrow> error + unit" where
  "validateSchema schema =
     (let fields = map fst schema in
      if length fields = 0 then
        Inl (ValidationError ''Schema must have at least one field'' None)
      else
        (let primaryKeys = primaryKeysOf schema in
         if length primaryKeys > 1 then
           Inl (ValidationError
             (''Multiple primary keys found: '' @ join '', '' primaryKeys
                @ ''. Only one primary key is allowed.'') None)
         else validateColumns schema))"

definition validateTableName :: "string \<Rightarrow> error + unit" where
  "validateTableName tableName =
     (if tableName = [] then
        Inl (ValidationError ''Table name must be a non-empty string'' None)
      else if \<not> isValidIdentifier tableName then
        Inl (ValidationError
          (''Invalid table name '' @ quoted tableName
             @ ''. Table names must start with a letter or underscore and contain only alphanumeric characters and underscores.'')
          None)
      else if length tableName > 64 then
        Inl (ValidationError
          (''Table name '' @ quoted tableName @ '' is too long. Maximum length is 64 characters.'')
          None)
      else Inr ())"




section \<open>Table schema (core/schema.ts)\<close>

record TableSchema =
  name :: string
  schema :: SchemaDefinition
  columnNames :: "string list"
  primaryKeyColumn :: "string option"

text \<open>The constructor: both validations, then the fields.\<close>

definition TableSchema_new :: "string \<Rightarrow> SchemaDefinition \<Rightarrow> error + TableSchema" where
  "TableSchema_new nm sch =
     (case validateTableName nm of
        Inl e \<Rightarrow> Inl e
      | Inr _ \<Rightarrow>
          (case validateSchema sch of
             Inl e \<Rightarrow> Inl e
           | Inr _ \<Rightarrow>
               Inr \<lparr> name = nm, schema = sch, columnNames = map fst sch,
                     primaryKeyColumn =
                       (case primaryKeysOf sch of [] \<Rightarrow> None | k # _ \<Rightarrow> Some k) \<rparr>))"

section \<open>Notions used in the statements\<close>




text \<open>The keys that \<open>processCondition\<close> reads as logical combinators and not as fields.\<close>

definition combinatorKeys :: "string list" where
  "combinatorKeys = [''and'', ''$and'', ''or'', ''$or'', ''not'', ''$not'']"

text \<open>
  An entry of an operator set that compiles: its key is in the vocabulary, \<open>in\<close> and
  \<open>notIn\<close> carry an array, \<open>between\<close> carries an array of two.
\<close>

definition wellFormedOperator :: "string \<times> jsval \<Rightarrow> bool" where
  "wellFormedOperator e =
     (fst e \<in> set validKeys \<and>
      (if fst e = ''in'' \<or> fst e = ''notIn'' then Array_isArray (snd e)
       else if fst e = ''between'' then (case snd e of JArray [lo, hi] \<Rightarrow> True | _ \<Rightarrow> False)
       else True))"




subsection \<open>Concrete inputs\<close>

text \<open>A host whose parameters accept nothing; the examples below never consult them.\<close>

definition exampleHost :: host where
  "exampleHost =
     \<lparr> String_of = (\<lambda>_. Inr ''[object Object]''), NumberToString = (\<lambda>_. ''NaN''),
       Number_of = (\<lambda>_. Inr NaN),
       Date_of = (\<lambda>_. Inr NaN), Date_parse = (\<lambda>_. NaN),
       JSON_parse = (\<lambda>_. Inl SyntaxError), StringToBigInt = (\<lambda>_. None),
       BigInt_of = (\<lambda>_. Inl SyntaxError) \<rparr>"

text \<open>A column definition with its type and no other property.\<close>

definition bareColumn :: "DataType \<Rightarrow> ColumnDefinition" where
  "bareColumn t =
     \<lparr> type = t, nullable = None, primaryKey = None, unique = None, default' = None,
       autoIncrement = None, comment = None, elementType = None, precision = None,
       scale = None, length' = None, enumValues = None \<rparr>"


definition twoKeySchema :: SchemaDefinition where
  "twoKeySchema =
     [(''id'', (bareColumn UInt32)\<lparr> primaryKey := Some True \<rparr>),
      (''name'', bareColumn String),
      (''code'', (bareColumn UInt32)\<lparr> primaryKey := Some True \<rparr>)]"

section \<open>Decimal names of parameters\<close>






lemma showNat_small: "n < 10 \<Longrightarrow> showNat n = [digit n]"
  by (subst showNat.simps) simp

lemma showNat_big: "\<not> n < 10 \<Longrightarrow> showNat n = showNat (n div 10) @ [digit (n mod 10)]"
  by (subst showNat.simps) simp


section \<open>Properties of the condition compiler\<close>







lemma build_field:
  assumes "field \<notin> set combinatorKeys"
    and "processFieldCondition (this\<lparr> params := [], paramCounter := startingParamCount this \<rparr>) field v
           = Inr (JString fc, this1)"
  shows "build h this (JObject [(field, v)]) = Inr (if fc \<noteq> [] then fc else ''1=1'', params this1)"
  using assms by (simp add: build_def combinatorKeys_def elementText_def String_js_def)

lemma build_field_error:
  assumes "field \<notin> set combinatorKeys"
    and "processFieldCondition (this\<lparr> params := [], paramCounter := startingParamCount this \<rparr>) field v
           = Inl e"
  shows "build h this (JObject [(field, v)]) = Inl e"
  using assms by (simp add: build_def combinatorKeys_def)

lemma raw_field:
  assumes "identifier (sqlBuilder this) field = Inr fieldName"
    and "isRawExpression (JObject es)"
  shows "processFieldCondition this field (JObject es) = Inr (getProp es ''sql'', this)"
  using assms by (simp add: processFieldCondition_def rawSql_def)

lemma isWhereOperator_object:
  "isWhereOperator (JObject es) = list_ex (\<lambda>key. key \<in> set validKeys) (map fst es)"
  by (simp add: isWhereOperator_def Object_keys_def)

lemma operators_field:
  assumes "identifier (sqlBuilder this) field = Inr fieldName"
    and "\<not> isRawExpression (JObject es)"
    and "list_ex (\<lambda>key. key \<in> set validKeys) (map fst es)"
  shows "processFieldCondition this field (JObject es)
           = (case processOperatorsLoop fieldName es [] this of
                Inl e \<Rightarrow> Inl e
              | Inr (s, this1) \<Rightarrow> Inr (JString s, this1))"
  using assms by (simp add: processFieldCondition_def isWhereOperator_object processOperators_def)


lemma processOperator_unknown:
  "k \<notin> set validKeys \<Longrightarrow>
   processOperator fieldName k x this = Inl (ValidationError (''Unknown operator: '' @ k) None)"
  by (auto simp: processOperator_def validKeys_def)

lemma processOperator_ok:
  assumes "wellFormedOperator (op, v)"
  shows "\<exists>r. processOperator fieldName op v this = Inr r"
proof -
  from assms have "op \<in> set validKeys" by (simp add: wellFormedOperator_def)
  then have "op = ''eq'' \<or> op = ''ne'' \<or> op = ''gt'' \<or> op = ''gte'' \<or> op = ''lt''
    \<or> op = ''lte'' \<or> op = ''in'' \<or> op = ''notIn'' \<or> op = ''like'' \<or> op = ''notLike''
    \<or> op = ''ilike'' \<or> op = ''between'' \<or> op = ''isNull'' \<or> op = ''notNull''"
    by (simp only: validKeys_def set_simps insert_iff empty_iff simp_thms)
  then show ?thesis
  proof (elim disjE, goal_cases)
    case 7
    with assms show ?case
      by (cases v) (simp_all add: processOperator_def wellFormedOperator_def split: prod.splits)
  next
    case 8
    with assms show ?case
      by (cases v) (simp_all add: processOperator_def wellFormedOperator_def split: prod.splits)
  next
    case 12
    with assms show ?case
      by (simp add: processOperator_def wellFormedOperator_def
               split: prod.splits jsval.splits list.splits)
  qed (simp_all add: processOperator_def split: prod.splits)
qed

lemma loop_unknown_key:
  assumes "list_all wellFormedOperator pre" and "k \<notin> set validKeys"
  shows "processOperatorsLoop fieldName (pre @ (k, x) # post) parts this
           = Inl (ValidationError (''Unknown operator: '' @ k) None)"
  using assms(1)
proof (induction pre arbitrary: parts this)
  case Nil
  then show ?case by (simp add: processOperator_unknown[OF assms(2)])
next
  case (Cons e pre)
  obtain op v where e: "e = (op, v)" by (cases e)
  from Cons.prems e obtain r where "processOperator fieldName op v this = Inr r"
    using processOperator_ok by fastforce
  moreover from Cons.prems have "list_all wellFormedOperator pre" by simp
  ultimately show ?case using Cons.IH e by (cases r) simp
qed

lemma identifier_example:
  "identifier (sqlBuilder (WhereBuilder_new SQLBuilder_new n)) ''id'' = Inr ([CHR 0x60] @ ''id'' @ [CHR 0x60])"
  "identifier (sqlBuilder (WhereBuilder_new SQLBuilder_new n)) ''age'' = Inr ([CHR 0x60] @ ''age'' @ [CHR 0x60])"
  by (simp_all add: WhereBuilder_new_def SQLBuilder_new_def identStart_def identChar_def)

text \<open>
  Claim C9. For the empty condition tree, \<open>build\<close> returns the text \<open>1=1\<close> and an empty
  parameter map, whatever the starting parameter count.
\<close>

theorem build_empty: "build h this (JObject []) = Inr (''1=1'', [])"
  by (simp add: build_def)

theorem build_empty_witness:
  "build exampleHost (WhereBuilder_new SQLBuilder_new 0) (JObject []) = Inr (''1=1'', [])
   \<and> build exampleHost (WhereBuilder_new SQLBuilder_new 7) (JObject []) = Inr (''1=1'', [])"
  using build_empty[of exampleHost "WhereBuilder_new SQLBuilder_new 0"]
        build_empty[of exampleHost "WhereBuilder_new SQLBuilder_new 7"]
  by simp

text \<open>
  Claim C4. For a field that the identifier utility accepts and a boolean \<open>b\<close>, the operator
  set \<open>{isNull: b}\<close> compiles to \<open>IS NULL\<close> when \<open>b\<close> holds and to \<open>IS NOT NULL\<close> otherwise,
  \<open>{notNull: not b}\<close> compiles to the same result, and no parameter is bound.
\<close>

theorem null_test_polarity:
  assumes "identifier (sqlBuilder this) field = Inr fieldName"
    and "field \<notin> set combinatorKeys"
  shows "build h this (JObject [(field, JObject [(''isNull'', JBool b)])])
           = Inr (fieldName @ (if b then '' IS NULL'' else '' IS NOT NULL''), [])
         \<and> build h this (JObject [(field, JObject [(''notNull'', JBool (\<not> b))])])
           = build h this (JObject [(field, JObject [(''isNull'', JBool b)])])"
proof -
  let ?start = "this\<lparr> params := [], paramCounter := startingParamCount this \<rparr>"
  from assms(1) have id0: "identifier (sqlBuilder ?start) field = Inr fieldName" by simp
  have a: "processFieldCondition ?start field (JObject [(''isNull'', JBool b)])
             = Inr (JString (fieldName @ (if b then '' IS NULL'' else '' IS NOT NULL'')), ?start)"
    by (subst operators_field[OF id0])
       (simp_all add: isRawExpression_def validKeys_def processOperator_def)
  have b: "processFieldCondition ?start field (JObject [(''notNull'', JBool (\<not> b))])
             = Inr (JString (fieldName @ (if b then '' IS NULL'' else '' IS NOT NULL'')), ?start)"
    by (subst operators_field[OF id0])
       (simp_all add: isRawExpression_def validKeys_def processOperator_def)
  show ?thesis
    by (simp add: build_field[OF assms(2) a] build_field[OF assms(2) b])
qed

theorem null_test_polarity_witness:
  "build exampleHost (WhereBuilder_new SQLBuilder_new 0) (JObject [(''age'', JObject [(''isNull'', JBool False)])])
     = Inr ([CHR 0x60] @ ''age'' @ [CHR 0x60] @ '' IS NOT NULL'', [])
   \<and> build exampleHost (WhereBuilder_new SQLBuilder_new 0) (JObject [(''age'', JObject [(''notNull'', JBool True)])])
     = Inr ([CHR 0x60] @ ''age'' @ [CHR 0x60] @ '' IS NOT NULL'', [])
   \<and> build exampleHost (WhereBuilder_new SQLBuilder_new 0) (JObject [(''age'', JObject [(''isNull'', JBool True)])])
     = Inr ([CHR 0x60] @ ''age'' @ [CHR 0x60] @ '' IS NULL'', [])
   \<and> build exampleHost (WhereBuilder_new SQLBuilder_new 0) (JObject [(''age'', JObject [(''notNull'', JBool False)])])
     = Inr ([CHR 0x60] @ ''age'' @ [CHR 0x60] @ '' IS NULL'', [])"
  using null_test_polarity[OF identifier_example(2), where h = exampleHost and b = False and n1 = 0]
        null_test_polarity[OF identifier_example(2), where h = exampleHost and b = True and n1 = 0]
  by (simp add: combinatorKeys_def)



lemma processOperator_kind:
  assumes "processOperator fieldName op v this = Inl e"
  shows "\<exists>m. e = ValidationError m None"
proof (cases "op \<in> set validKeys")
  case False
  from assms processOperator_unknown[OF False, of fieldName v this] show ?thesis by auto
next
  case True
  then have "op = ''eq'' \<or> op = ''ne'' \<or> op = ''gt'' \<or> op = ''gte'' \<or> op = ''lt''
    \<or> op = ''lte'' \<or> op = ''in'' \<or> op = ''notIn'' \<or> op = ''like'' \<or> op = ''notLike''
    \<or> op = ''ilike'' \<or> op = ''between'' \<or> op = ''isNull'' \<or> op = ''notNull''"
    by (simp only: validKeys_def set_simps insert_iff empty_iff simp_thms)
  then show ?thesis
  proof (elim disjE, goal_cases)
    case 7
    with assms show ?case
      by (cases v) (auto simp: processOperator_def split: prod.splits if_splits)
  next
    case 8
    with assms show ?case
      by (cases v) (auto simp: processOperator_def split: prod.splits if_splits)
  next
    case 12
    with assms show ?case
      by (auto simp: processOperator_def split: prod.splits jsval.splits list.splits)
  qed (use assms in \<open>auto simp: processOperator_def split: prod.splits if_splits\<close>)
qed

lemma loop_some_unknown_key:
  assumes "\<not> list_all (\<lambda>key. key \<in> set validKeys) (map fst es)"
  shows "\<exists>m. processOperatorsLoop fieldName es parts this = Inl (ValidationError m None)"
  using assms
proof (induction es arbitrary: parts this)
  case Nil
  then show ?case by simp
next
  case (Cons e es)
  obtain op v where e: "e = (op, v)" by (cases e)
  show ?case
  proof (cases "processOperator fieldName op v this")
    case (Inl err)
    with processOperator_kind[OF Inl] e show ?thesis by auto
  next
    case (Inr r)
    have "op \<in> set validKeys"
    proof (rule ccontr)
      assume "op \<notin> set validKeys"
      from processOperator_unknown[OF this, of fieldName v this] Inr show False by simp
    qed
    with Cons.prems e have "\<not> list_all (\<lambda>key. key \<in> set validKeys) (map fst es)" by simp
    from Cons.IH[OF this] Inr e show ?thesis by (cases r) simp
  qed
qed

text \<open>
  Two objects with a key in the vocabulary. In the first, the entry \<open>in\<close> is malformed and
  raises before the key \<open>city\<close> is reached: the error does not name \<open>city\<close>. The second is
  branded as a raw expression: it is compiled as one, and its keys outside the vocabulary
  raise nothing.
\<close>

theorem operator_set_first_error:
  "build exampleHost (WhereBuilder_new SQLBuilder_new 0)
     (JObject [(''id'', JObject [(''in'', JNumber (Fin 5)), (''city'', JString ''Oslo'')])])
     = Inl (ValidationError ''IN operator requires an array'' None)
   \<and> build exampleHost (WhereBuilder_new SQLBuilder_new 0)
       (JObject [(''id'', JObject [(''_brand'', JString ''RawExpression''),
                                   (''sql'', JString ''1 = 1''), (''eq'', JNumber (Fin 5))])])
     = Inr (''1 = 1'', [])"
  by code_simp

text \<open>
  Claim C3, as the code has it. Take a field value that is an object. If it is branded as a
  raw expression, the field compiles to its \<open>sql\<close> property, binding no parameter and
  raising nothing, whatever its other keys. If it is not, and has at least one key in the
  vocabulary of the fourteen operators, it is classified as an operator set as a whole; if
  it also has a key outside the vocabulary, compiling it raises a validation error, and when
  the entries before the first such key are well formed the error names that key.
\<close>

theorem unknown_operator_key:
  assumes "identifier (sqlBuilder this) field = Inr fieldName"
    and "field \<notin> set combinatorKeys"
    and "ops = pre @ (k, x) # post"
    and "list_ex (\<lambda>key. key \<in> set validKeys) (map fst ops)"
    and "k \<notin> set validKeys"
  shows "(isRawExpression (JObject es) \<longrightarrow>
            processFieldCondition this field (JObject es) = Inr (getProp es ''sql'', this)
            \<and> (\<forall>s. getProp es ''sql'' = JString s \<longrightarrow>
                  build h this (JObject [(field, JObject es)])
                    = Inr (if s \<noteq> [] then s else ''1=1'', [])))
         \<and> (\<not> isRawExpression (JObject ops) \<longrightarrow>
            isWhereOperator (JObject ops)
            \<and> (\<exists>m. build h this (JObject [(field, JObject ops)]) = Inl (ValidationError m None))
            \<and> (list_all wellFormedOperator pre \<longrightarrow>
                  build h this (JObject [(field, JObject ops)])
                    = Inl (ValidationError (''Unknown operator: '' @ k) None)))"
proof -
  let ?start = "this\<lparr> params := [], paramCounter := startingParamCount this \<rparr>"
  from assms(1) have id0: "identifier (sqlBuilder ?start) field = Inr fieldName" by simp
  have branded: "processFieldCondition this field (JObject es) = Inr (getProp es ''sql'', this)
            \<and> (\<forall>s. getProp es ''sql'' = JString s \<longrightarrow>
                  build h this (JObject [(field, JObject es)])
                    = Inr (if s \<noteq> [] then s else ''1=1'', []))"
    if r: "isRawExpression (JObject es)"
  proof (intro conjI allI impI)
    show "processFieldCondition this field (JObject es) = Inr (getProp es ''sql'', this)"
      by (rule raw_field[OF assms(1) r])
  next
    fix s assume s: "getProp es ''sql'' = JString s"
    from raw_field[OF id0 r] s
    have "processFieldCondition ?start field (JObject es) = Inr (JString s, ?start)" by simp
    from build_field[OF assms(2) this]
    show "build h this (JObject [(field, JObject es)]) = Inr (if s \<noteq> [] then s else ''1=1'', [])"
      by simp
  qed
  have operators: "isWhereOperator (JObject ops)
            \<and> (\<exists>m. build h this (JObject [(field, JObject ops)]) = Inl (ValidationError m None))
            \<and> (list_all wellFormedOperator pre \<longrightarrow>
                  build h this (JObject [(field, JObject ops)])
                    = Inl (ValidationError (''Unknown operator: '' @ k) None))"
    if nr: "\<not> isRawExpression (JObject ops)"
  proof -
    have c: "isWhereOperator (JObject ops)"
      using assms(4) by (simp only: isWhereOperator_object)
    note loop = operators_field[OF id0 nr assms(4)]
    from assms(3,5) have "\<not> list_all (\<lambda>key. key \<in> set validKeys) (map fst ops)" by simp
    from loop_some_unknown_key[OF this, of fieldName "[]" ?start]
    obtain m where "processOperatorsLoop fieldName ops [] ?start = Inl (ValidationError m None)"
      by blast
    then have "processFieldCondition ?start field (JObject ops) = Inl (ValidationError m None)"
      by (simp add: loop)
    from build_field_error[OF assms(2) this]
    have some: "\<exists>m. build h this (JObject [(field, JObject ops)]) = Inl (ValidationError m None)"
      by blast
    have named: "build h this (JObject [(field, JObject ops)])
                   = Inl (ValidationError (''Unknown operator: '' @ k) None)"
      if wf: "list_all wellFormedOperator pre"
    proof -
      from loop_unknown_key[OF wf assms(5), of fieldName x post "[]" ?start] assms(3)
      have "processOperatorsLoop fieldName ops [] ?start
              = Inl (ValidationError (''Unknown operator: '' @ k) None)"
        by simp
      then have "processFieldCondition ?start field (JObject ops)
              = Inl (ValidationError (''Unknown operator: '' @ k) None)"
        by (simp add: loop)
      from build_field_error[OF assms(2) this] show ?thesis .
    qed
    from c some named show ?thesis by blast
  qed
  from branded operators show ?thesis by blast
qed

theorem unknown_operator_key_witness:
  "isWhereOperator (JObject [(''in'', JArray [JNumber (Fin 1)]), (''city'', JString ''Oslo'')])
   \<and> build exampleHost (WhereBuilder_new SQLBuilder_new 0)
        (JObject [(''id'', JObject [(''in'', JArray [JNumber (Fin 1)]), (''city'', JString ''Oslo'')])])
     = Inl (ValidationError ''Unknown operator: city'' None)
   \<and> build exampleHost (WhereBuilder_new SQLBuilder_new 0)
        (JObject [(''id'', JObject [(''_brand'', JString ''RawExpression''),
                                    (''sql'', JString ''1 = 1''), (''eq'', JNumber (Fin 5))])])
     = Inr (''1 = 1'', [])"
  using unknown_operator_key[OF identifier_example(1), where h = exampleHost and n1 = 0
          and pre = "[(''in'', JArray [JNumber (Fin 1)])]" and k = "''city''"
          and x = "JString ''Oslo''" and post = "[]"
          and ops = "[(''in'', JArray [JNumber (Fin 1)]), (''city'', JString ''Oslo'')]"
          and es = "[(''_brand'', JString ''RawExpression''),
                     (''sql'', JString ''1 = 1''), (''eq'', JNumber (Fin 5))]"]
  by (simp add: combinatorKeys_def isRawExpression_def validKeys_def wellFormedOperator_def
        getProp_def)

section \<open>Properties of the type mapper\<close>

lemma Number_toString_255: "Number_toString h (Fin 255) = ''255''"
  by (simp add: Number_toString_def isIntegral_def showInt_def showNat_big showNat_small digit_def)

lemma Number_toString_small:
  "Number_toString h (Fin 10) = ''10''"
  "Number_toString h (Fin 2) = ''2''"
  "Number_toString h (Fin 3) = ''3''"
  by (simp_all add: Number_toString_def isIntegral_def showInt_def showNat_big showNat_small digit_def)

text \<open>
  A FixedString column without a length renders with the default 255 and does not fail.
\<close>

theorem FixedString_without_length:
  "type (bareColumn FixedString) = FixedString
   \<and> length' (bareColumn FixedString) = None
   \<and> getClickHouseType exampleHost (bareColumn FixedString) = Inr ''FixedString(255)''"
  by (simp add: getClickHouseType_def baseTypeString_def bareColumn_def orElse_def flag_def Number_toString_255)

text \<open>
  Claim C1, as the code has it. \<open>getClickHouseType\<close> fails exactly for an Array or
  LowCardinality column without an element type and for an Enum8 or Enum16 column whose
  enum values are absent or empty, and then with a type-mapping error. For FixedString,
  Decimal and DateTime64 an absent parameter is replaced by a default: length 255,
  precision 10 and scale 2, precision 3.
\<close>

theorem getClickHouseType_failures:
  "((\<exists>e. getClickHouseType h c = Inl e)
      = ((type c = Array \<or> type c = LowCardinality) \<and> elementType c = None
         \<or> (type c = Enum8 \<or> type c = Enum16) \<and> (enumValues c = None \<or> enumValues c = Some [])))
   \<and> (\<forall>e. getClickHouseType h c = Inl e \<longrightarrow> (\<exists>m. e = TypeMappingError m))
   \<and> (type c = FixedString \<and> length' c = None \<longrightarrow>
        getClickHouseType h c
          = Inr (if flag (nullable c) then ''Nullable(FixedString(255))'' else ''FixedString(255)''))
   \<and> (type c = Decimal \<and> precision c = None \<and> scale c = None \<longrightarrow>
        getClickHouseType h c
          = Inr (if flag (nullable c) then ''Nullable(Decimal(10, 2))'' else ''Decimal(10, 2)''))
   \<and> (type c = DateTime64 \<and> precision c = None \<longrightarrow>
        getClickHouseType h c
          = Inr (if flag (nullable c) then ''Nullable(DateTime64(3))'' else ''DateTime64(3)''))"
proof -
  have fails: "(\<exists>e. baseTypeString h c = Inl e)
      = ((type c = Array \<or> type c = LowCardinality) \<and> elementType c = None
         \<or> (type c = Enum8 \<or> type c = Enum16) \<and> (enumValues c = None \<or> enumValues c = Some []))"
    by (cases "type c") (auto simp: baseTypeString_def split: option.splits)
  have kind: "\<exists>m. e = TypeMappingError m" if "baseTypeString h c = Inl e" for e
    using that by (cases "type c") (auto simp: baseTypeString_def split: option.splits if_splits)
  have lift: "(getClickHouseType h c = Inl e) = (baseTypeString h c = Inl e)" for e
    by (simp add: getClickHouseType_def split: sum.splits)
  have 1: "(\<exists>e. getClickHouseType h c = Inl e)
      = ((type c = Array \<or> type c = LowCardinality) \<and> elementType c = None
         \<or> (type c = Enum8 \<or> type c = Enum16) \<and> (enumValues c = None \<or> enumValues c = Some []))"
    by (simp only: lift fails)
  have 2: "\<forall>e. getClickHouseType h c = Inl e \<longrightarrow> (\<exists>m. e = TypeMappingError m)"
    using kind by (simp only: lift) blast
  have 3: "type c = FixedString \<and> length' c = None \<longrightarrow>
        getClickHouseType h c
          = Inr (if flag (nullable c) then ''Nullable(FixedString(255))'' else ''FixedString(255)'')"
    by (simp add: getClickHouseType_def baseTypeString_def orElse_def Number_toString_255)
  have 4: "type c = Decimal \<and> precision c = None \<and> scale c = None \<longrightarrow>
        getClickHouseType h c
          = Inr (if flag (nullable c) then ''Nullable(Decimal(10, 2))'' else ''Decimal(10, 2)'')"
    by (simp add: getClickHouseType_def baseTypeString_def orElse_def Number_toString_small)
  have 5: "type c = DateTime64 \<and> precision c = None \<longrightarrow>
        getClickHouseType h c
          = Inr (if flag (nullable c) then ''Nullable(DateTime64(3))'' else ''DateTime64(3)'')"
    by (simp add: getClickHouseType_def baseTypeString_def orElse_def Number_toString_small)
  from 1 2 3 4 5 show ?thesis by (intro conjI)
qed

theorem getClickHouseType_failures_witness:
  "(\<exists>e. getClickHouseType exampleHost (bareColumn Array) = Inl e)
   \<and> (\<exists>e. getClickHouseType exampleHost (bareColumn Enum8) = Inl e)
   \<and> getClickHouseType exampleHost (bareColumn FixedString) = Inr ''FixedString(255)''
   \<and> getClickHouseType exampleHost (bareColumn Decimal) = Inr ''Decimal(10, 2)''
   \<and> getClickHouseType exampleHost (bareColumn DateTime64) = Inr ''DateTime64(3)''"
  using getClickHouseType_failures[of exampleHost "bareColumn Array"]
        getClickHouseType_failures[of exampleHost "bareColumn Enum8"]
        getClickHouseType_failures[of exampleHost "bareColumn FixedString"]
        getClickHouseType_failures[of exampleHost "bareColumn Decimal"]
        getClickHouseType_failures[of exampleHost "bareColumn DateTime64"]
  by (simp add: bareColumn_def flag_def)






text \<open>
  Claim C10. For an Int64 or UInt64 column and a value that is neither null nor undefined,
  \<open>validateValue\<close> returns whether the value is a number or a bigint, with no check of range
  or integrality.
\<close>

theorem validateValue_int64:
  assumes "type c = Int64 \<or> type c = UInt64" and "v \<noteq> JNull" and "v \<noteq> JUndefined"
  shows "validateValue h v c = Inr (typeof v = ''number'' \<or> typeof v = ''bigint'')"
  using assms by (auto simp: validateValue_def validateTyped_def)

theorem validateValue_int64_witness:
  "validateValue exampleHost (JNumber (Fin (3 / 2))) (bareColumn Int64) = Inr True
   \<and> validateValue exampleHost (JNumber (Fin (2 ^ 70))) (bareColumn UInt64) = Inr True
   \<and> validateValue exampleHost (JNumber NaN) (bareColumn Int64) = Inr True
   \<and> validateValue exampleHost (JBigInt (- 5)) (bareColumn UInt64) = Inr True
   \<and> validateValue exampleHost (JString ''5'') (bareColumn Int64) = Inr False"
  using validateValue_int64[of "bareColumn Int64" "JNumber (Fin (3 / 2))" exampleHost]
        validateValue_int64[of "bareColumn UInt64" "JNumber (Fin (2 ^ 70))" exampleHost]
        validateValue_int64[of "bareColumn Int64" "JNumber NaN" exampleHost]
        validateValue_int64[of "bareColumn UInt64" "JBigInt (- 5)" exampleHost]
        validateValue_int64[of "bareColumn Int64" "JString ''5''" exampleHost]
  by (simp add: bareColumn_def)

text \<open>
  Claim C8. Under a 64-bit integer kind, a wire value that is neither null nor undefined and
  denotes the integer \<open>n\<close> (a bigint, or a value that \<open>BigInt\<close> converts to \<open>n\<close>) converts to the
  plain number \<open>n\<close> exactly when \<open>n\<close> lies between \<open>MIN_SAFE_INTEGER\<close> and \<open>MAX_SAFE_INTEGER\<close>
  inclusive, and to the bigint \<open>n\<close> otherwise.
\<close>

theorem fromClickHouseValue_int64:
  assumes "dataType = Int64 \<or> dataType = UInt64"
    and "v \<noteq> JNull" and "v \<noteq> JUndefined"
    and "BigInt_js h v = Inr n"
  shows "fromClickHouseValue h v dataType
           = Inr (if MIN_SAFE_INTEGER \<le> n \<and> n \<le> MAX_SAFE_INTEGER
                  then JNumber (Fin (of_int n)) else JBigInt n)"
proof -
  have "(case v of JBigInt i \<Rightarrow> Inr i | _ \<Rightarrow> BigInt_js h v) = Inr n"
    using assms(4) by (cases v) (simp_all add: BigInt_js_def)
  with assms(1,2,3) show ?thesis
    by (auto simp: fromClickHouseValue_def)
qed

theorem fromClickHouseValue_int64_witness:
  "fromClickHouseValue exampleHost (JBigInt 123) Int64 = Inr (JNumber (Fin 123))
   \<and> fromClickHouseValue exampleHost (JBigInt 9007199254740991) UInt64
       = Inr (JNumber (Fin 9007199254740991))
   \<and> fromClickHouseValue exampleHost (JBigInt 9007199254740992) UInt64
       = Inr (JBigInt 9007199254740992)
   \<and> fromClickHouseValue exampleHost (JBigInt (- 9007199254740991)) Int64
       = Inr (JNumber (Fin (- 9007199254740991)))
   \<and> fromClickHouseValue exampleHost (JBigInt (- 9007199254740992)) Int64
       = Inr (JBigInt (- 9007199254740992))
   \<and> fromClickHouseValue exampleHost (JNumber (Fin 42)) Int64 = Inr (JNumber (Fin 42))
   \<and> fromClickHouseValue exampleHost (JNumber (Fin (2 ^ 60))) Int64 = Inr (JBigInt (2 ^ 60))"
  using fromClickHouseValue_int64[of Int64 "JBigInt 123" exampleHost 123]
        fromClickHouseValue_int64[of UInt64 "JBigInt 9007199254740991" exampleHost 9007199254740991]
        fromClickHouseValue_int64[of UInt64 "JBigInt 9007199254740992" exampleHost 9007199254740992]
        fromClickHouseValue_int64[of Int64 "JBigInt (- 9007199254740991)" exampleHost
          "- 9007199254740991"]
        fromClickHouseValue_int64[of Int64 "JBigInt (- 9007199254740992)" exampleHost
          "- 9007199254740992"]
        fromClickHouseValue_int64[of Int64 "JNumber (Fin 42)" exampleHost 42]
        fromClickHouseValue_int64[of Int64 "JNumber (Fin (2 ^ 60))" exampleHost "2 ^ 60"]
  by (simp add: BigInt_js_def isIntegral_def MIN_SAFE_INTEGER_def MAX_SAFE_INTEGER_def)

text \<open>
  Outside that domain: a value that \<open>BigInt\<close> refuses makes the conversion raise what
  \<open>BigInt\<close> raised.
\<close>

lemma fromClickHouseValue_int64_refused:
  assumes "dataType = Int64 \<or> dataType = UInt64"
    and "v \<noteq> JNull" and "v \<noteq> JUndefined"
    and "BigInt_js h v = Inl e"
  shows "fromClickHouseValue h v dataType = Inl e"
proof -
  have "(case v of JBigInt i \<Rightarrow> Inr i | _ \<Rightarrow> BigInt_js h v) = Inl e"
    using assms(4) by (cases v) (simp_all add: BigInt_js_def)
  with assms(1,2,3) show ?thesis
    by (auto simp: fromClickHouseValue_def)
qed

section \<open>Properties of the validator and of the table schema\<close>








lemma primaryKeysOf_distinct:
  assumes "distinct (map fst sch)"
  shows "primaryKeysOf sch = map fst (filter (\<lambda>e. flag (primaryKey (snd e))) sch)"
proof -
  have "filter (\<lambda>field. case map_of sch field of None \<Rightarrow> False | Some c \<Rightarrow> flag (primaryKey c)) (map fst sch)
          = map fst (filter ((\<lambda>field. case map_of sch field of None \<Rightarrow> False | Some c \<Rightarrow> flag (primaryKey c)) \<circ> fst) sch)"
    by (simp only: filter_map)
  also have "filter ((\<lambda>field. case map_of sch field of None \<Rightarrow> False | Some c \<Rightarrow> flag (primaryKey c)) \<circ> fst) sch
          = filter (\<lambda>e. flag (primaryKey (snd e))) sch"
  proof (rule filter_cong[OF refl])
    fix e assume "e \<in> set sch"
    with assms have "map_of sch (fst e) = Some (snd e)" by (cases e) simp
    then show "((\<lambda>field. case map_of sch field of None \<Rightarrow> False | Some c \<Rightarrow> flag (primaryKey c)) \<circ> fst) e
                 = flag (primaryKey (snd e))"
      by simp
  qed
  finally show ?thesis by (simp only: primaryKeysOf_def)
qed

lemma validateTableName_kind:
  "validateTableName nm = Inl e \<Longrightarrow> \<exists>m f. e = ValidationError m f"
  by (auto simp: validateTableName_def split: if_splits)

text \<open>
  Claim C7. For a schema definition with two or more columns flagged as primary key,
  \<open>validateSchema\<close> fails with a validation error whose message lists the names of all these
  columns, in order; constructing a table schema from it never produces an object, and with a
  valid table name it fails with that same error.
\<close>

theorem multiple_primary_keys_rejected:
  assumes "distinct (map fst sch)"
    and "2 \<le> length (filter (\<lambda>e. flag (primaryKey (snd e))) sch)"
  shows "validateSchema sch
           = Inl (ValidationError
               (''Multiple primary keys found: ''
                  @ join '', '' (map fst (filter (\<lambda>e. flag (primaryKey (snd e))) sch))
                  @ ''. Only one primary key is allowed.'') None)
         \<and> (\<exists>m f. TableSchema_new nm sch = Inl (ValidationError m f))
         \<and> (validateTableName nm = Inr () \<longrightarrow>
              TableSchema_new nm sch
                = Inl (ValidationError
                    (''Multiple primary keys found: ''
                       @ join '', '' (map fst (filter (\<lambda>e. flag (primaryKey (snd e))) sch))
                       @ ''. Only one primary key is allowed.'') None))"
proof -
  from assms(2) have ne: "sch \<noteq> []" by auto
  have v: "validateSchema sch
           = Inl (ValidationError
               (''Multiple primary keys found: ''
                  @ join '', '' (map fst (filter (\<lambda>e. flag (primaryKey (snd e))) sch))
                  @ ''. Only one primary key is allowed.'') None)"
    using assms(2) ne by (simp add: validateSchema_def primaryKeysOf_distinct[OF assms(1)])
  show ?thesis
  proof (cases "validateTableName nm")
    case (Inl e)
    with validateTableName_kind[OF Inl] v show ?thesis
      by (auto simp: TableSchema_new_def)
  next
    case (Inr u)
    with v show ?thesis by (simp add: TableSchema_new_def)
  qed
qed

theorem multiple_primary_keys_rejected_witness:
  "validateSchema twoKeySchema
     = Inl (ValidationError ''Multiple primary keys found: id, code. Only one primary key is allowed.'' None)
   \<and> TableSchema_new ''users'' twoKeySchema
     = Inl (ValidationError ''Multiple primary keys found: id, code. Only one primary key is allowed.'' None)"
  using multiple_primary_keys_rejected[of twoKeySchema "''users''"]
  by (simp add: twoKeySchema_def bareColumn_def flag_def validateTableName_def identStart_def identChar_def)

section \<open>Scenarios of the specification\<close>

text \<open>The model on the scenarios that the specification and the test-suite spell out.\<close>

lemma scenario_null_field:
  "build exampleHost (WhereBuilder_new SQLBuilder_new 0) (JObject [(''age'', JNull)])
     = Inr ([CHR 0x60] @ ''age'' @ [CHR 0x60] @ '' IS NULL'', [])"
  by code_simp

lemma scenario_and_group:
  "build exampleHost (WhereBuilder_new SQLBuilder_new 0)
     (JObject [(''and'', JArray [JObject [(''age'', JObject [(''gt'', JNumber (Fin 18))])],
                                 JObject [(''age'', JObject [(''lt'', JNumber (Fin 65))])]])])
     = Inr (''('' @ [CHR 0x60] @ ''age'' @ [CHR 0x60] @ '' > {param0:Int32} AND ''
              @ [CHR 0x60] @ ''age'' @ [CHR 0x60] @ '' < {param1:Int32})'',
            [(''param0'', JNumber (Fin 18)), (''param1'', JNumber (Fin 65))])"
  by code_simp

lemma scenario_rendered_types:
  "getClickHouseType exampleHost
     ((bareColumn Decimal)\<lparr> precision := Some (Fin 10), scale := Some (Fin 2) \<rparr>)
     = Inr ''Decimal(10, 2)''"
  "getClickHouseType exampleHost
     ((bareColumn Decimal)\<lparr> precision := Some (Fin 10), scale := Some (Fin 2), nullable := Some True \<rparr>)
     = Inr ''Nullable(Decimal(10, 2))''"
  "getClickHouseType exampleHost ((bareColumn Enum8)\<lparr> enumValues := Some [''active'', ''inactive''] \<rparr>)
     = Inr (''Enum8('' @ [CHR 0x27] @ ''active'' @ [CHR 0x27] @ '' = 1, ''
              @ [CHR 0x27] @ ''inactive'' @ [CHR 0x27] @ '' = 2)'')"
  by code_simp+

end
